theory Spec2Isabelle
  imports Complex_Main "HOL-Library.Log_Nat"
begin

section \<open>Double-precision arithmetic\<close>

text \<open>
  \<open>toDouble\<close> rounds a rational to the nearest number with a 53-bit significand,
  ties to the even significand, with the spacing of the subnormal numbers below
  \<open>2 ^ -1022\<close>. \<open>exponent x\<close> is the integer \<open>e\<close> with \<open>2 ^ e \<le> \<bar>x\<bar> < 2 ^ (e + 1)\<close>.
  Comparisons and \<open>Math.max\<close> are exact. Not a number is an absent value where the
  code can meet it (\<open>parseFloat\<close>); overflow to infinity, which needs amounts above
  \<open>2 ^ 1023\<close>, division by 0 (the code divides by 100 only) and the sign of zero are
  not represented.
\<close>

definition pow2 :: "int \<Rightarrow> rat" where
  "pow2 e = (if 0 \<le> e then 2 ^ nat e else 1 / 2 ^ nat (- e))"

definition exponent :: "rat \<Rightarrow> int" where
  "exponent x =
     (let d = bitlen \<bar>fst (quotient_of x)\<bar> - bitlen (snd (quotient_of x))
      in if pow2 d \<le> \<bar>x\<bar> then d else d - 1)"

definition roundHalfEven :: "rat \<Rightarrow> int" where
  "roundHalfEven y =
     (let f = \<lfloor>y\<rfloor>; r = y - of_int f
      in if r < 1 / 2 then f
         else if 1 / 2 < r then f + 1
         else if even f then f else f + 1)"

definition ulp :: "rat \<Rightarrow> rat" where
  "ulp x = pow2 (max (exponent x) (- 1022) - 52)"

definition toDouble :: "rat \<Rightarrow> rat" where
  "toDouble x = (if x = 0 then 0 else ulp x * of_int (roundHalfEven (x / ulp x)))"

text \<open>
  A number of the program is a double: a rational \<open>x\<close> with \<open>toDouble x = x\<close>. Numbers
  enter the program through \<open>Number\<close>, \<open>parseFloat\<close> and the decoding of a response,
  each of which gives the double nearest to the decimal it reads: the price 1.10 is held
  as \<open>toDouble (11 / 10)\<close>.
\<close>

definition isDouble :: "rat \<Rightarrow> bool" where
  "isDouble x = (toDouble x = x)"

text \<open>
  The operators \<open>+\<close>, \<open>-\<close>, \<open>*\<close> and \<open>/\<close> of the language: the exact result on the
  two operands, read as doubles, rounded to a double. Reading a double as a double changes
  nothing (\<open>toDouble\<close> is idempotent, as shown below); it makes the operators behave on
  any other rational as the language does on the decimal literal of that value.
\<close>

definition dadd :: "rat \<Rightarrow> rat \<Rightarrow> rat" where
  "dadd x y = toDouble (toDouble x + toDouble y)"

definition dsub :: "rat \<Rightarrow> rat \<Rightarrow> rat" where
  "dsub x y = toDouble (toDouble x - toDouble y)"

definition dmul :: "rat \<Rightarrow> rat \<Rightarrow> rat" where
  "dmul x y = toDouble (toDouble x * toDouble y)"

definition ddiv :: "rat \<Rightarrow> rat \<Rightarrow> rat" where
  "ddiv x y = toDouble (toDouble x / toDouble y)"

section \<open>Data model (types/pos.ts)\<close>

text \<open>
  The point-of-sale screen keeps its cart in component state and computes every total
  from it. A JavaScript number that holds money (a price, a discount value, tendered
  cash) is a double; it is modelled by the rational it denotes, and every arithmetic
  operation on money rounds its exact result to the nearest double, as the language
  does. Quantities and stock levels, which the code only ever steps by whole units, are
  integers. Identifiers and names are strings. Time stamps of the catalogue rows play no
  part in any computation below and are kept as strings.
\<close>

datatype AppRole = super_admin | manager | cashier

datatype DiscountType = percentage | fixed

datatype PaymentMethod = cash | card

record Discount =
  d_id :: string
  d_name :: string
  d_type :: DiscountType
  d_value :: rat
  is_active :: bool
  created_by :: string

record Product =
  p_id :: string
  p_name :: string
  barcode :: "string option"
  category_id :: "string option"
  brand_id :: "string option"
  buying_price :: rat
  selling_price :: rat
  stock_quantity :: int
  low_stock_threshold :: int
  created_at :: string
  updated_at :: string

record CartItem =
  product :: Product
  quantity :: int
  discount :: "Discount option"

section \<open>Role permissions (ROLE_PERMISSIONS, getRolePermissions)\<close>

record Permissions =
  canManageUsers :: bool
  canViewBuyingPrice :: bool
  canViewProfit :: bool
  canManageProducts :: bool
  canViewReports :: bool
  canOverrideTransactions :: bool
  canAccessSettings :: bool
  canViewActivityLogs :: bool

fun ROLE_PERMISSIONS :: "AppRole \<Rightarrow> Permissions" where
  "ROLE_PERMISSIONS super_admin =
     \<lparr>canManageUsers = True, canViewBuyingPrice = True, canViewProfit = True,
      canManageProducts = True, canViewReports = True, canOverrideTransactions = True,
      canAccessSettings = True, canViewActivityLogs = True\<rparr>"
| "ROLE_PERMISSIONS manager =
     \<lparr>canManageUsers = False, canViewBuyingPrice = True, canViewProfit = True,
      canManageProducts = True, canViewReports = True, canOverrideTransactions = False,
      canAccessSettings = False, canViewActivityLogs = False\<rparr>"
| "ROLE_PERMISSIONS cashier =
     \<lparr>canManageUsers = False, canViewBuyingPrice = False, canViewProfit = False,
      canManageProducts = False, canViewReports = False, canOverrideTransactions = False,
      canAccessSettings = False, canViewActivityLogs = False\<rparr>"

definition getRolePermissions :: "AppRole \<Rightarrow> Permissions" where
  "getRolePermissions role = ROLE_PERMISSIONS role"

section \<open>Pricing (calculateItemDiscount, calculateItemSubtotal, calculateTotals)\<close>

text \<open>
  \<open>calculateItemDiscount\<close> returns 0 for a line without discount, the percentage of
  the line's gross for a percentage discount, and otherwise the discount value once per
  unit.
\<close>

definition calculateItemDiscount :: "CartItem \<Rightarrow> rat" where
  "calculateItemDiscount item =
     (case discount item of
        None \<Rightarrow> 0
      | Some d \<Rightarrow>
          (let originalSubtotal = dmul (selling_price (product item)) (of_int (quantity item))
           in if d_type d = percentage
              then dmul originalSubtotal (ddiv (d_value d) 100)
              else dmul (d_value d) (of_int (quantity item))))"

definition calculateItemSubtotal :: "CartItem \<Rightarrow> rat" where
  "calculateItemSubtotal item =
     (let originalSubtotal = dmul (selling_price (product item)) (of_int (quantity item));
          discountAmount = calculateItemDiscount item
      in max 0 (dsub originalSubtotal discountAmount))"

record Totals =
  originalSubtotal :: rat
  totalDiscount :: rat
  subtotal :: rat
  totalProfit :: rat

text \<open>
  The three \<open>reduce\<close> calls of \<open>calculateTotals\<close> are left folds from 0 over the
  cart, in cart order.
\<close>

definition calculateTotals :: "CartItem list \<Rightarrow> Totals" where
  "calculateTotals cart =
     (let originalSubtotal =
            foldl (\<lambda>sum item.
                     dadd sum (dmul (selling_price (product item)) (of_int (quantity item))))
              0 cart;
          totalDiscount =
            foldl (\<lambda>sum item. dadd sum (calculateItemDiscount item)) 0 cart;
          subtotal = dsub originalSubtotal totalDiscount;
          totalProfit =
            foldl (\<lambda>sum item.
                     let itemSubtotal = calculateItemSubtotal item;
                         itemCost = dmul (buying_price (product item)) (of_int (quantity item))
                     in dadd sum (dsub itemSubtotal itemCost)) 0 cart
      in \<lparr>originalSubtotal = originalSubtotal, totalDiscount = totalDiscount,
          subtotal = subtotal, totalProfit = totalProfit\<rparr>)"

section \<open>Cart operations (POS page)\<close>

text \<open>
  Every handler of the page reads the cart of the current render and may replace it
  with \<open>setCart\<close>; it may also raise a toast. A handler is modelled as a function
  from the cart to the toasts it raises and the cart that results (the old cart when
  \<open>setCart\<close> is not called).
\<close>

datatype Toast = ToastError string | ToastSuccess string

definition startsWith :: "string \<Rightarrow> string \<Rightarrow> bool" where
  "startsWith s p = (take (length p) s = p)"

text \<open>Decimal rendering of a natural number, for the template string of the refill id.\<close>

fun decimal :: "nat \<Rightarrow> string" where
  "decimal n =
     (if n < 10 then [char_of (48 + n)]
      else decimal (n div 10) @ [char_of (48 + n mod 10)])"

declare decimal.simps [simp del]

text \<open>
  \<open>addRefillToCart\<close> builds a virtual product whose id is \<open>refill-\<close> followed by the
  clock reading \<open>now\<close> (milliseconds), with buying price 0 and stock quantity 999, and
  appends a line for it. The two ISO time stamps are parameters.
\<close>

definition addRefillToCart ::
  "nat \<Rightarrow> string \<Rightarrow> string \<Rightarrow> string \<Rightarrow> rat \<Rightarrow> rat \<Rightarrow> CartItem list \<Rightarrow> CartItem list" where
  "addRefillToCart now isoCreated isoUpdated name price volumeMl cart =
     (let refillProduct =
            \<lparr>p_id = ''refill-'' @ decimal now, p_name = name, barcode = None,
             category_id = None, brand_id = None, buying_price = 0, selling_price = price,
             stock_quantity = 999, low_stock_threshold = 0,
             created_at = isoCreated, updated_at = isoUpdated\<rparr>
      in cart @ [\<lparr>product = refillProduct, quantity = 1, discount = None\<rparr>])"

definition addToCart :: "Product \<Rightarrow> CartItem list \<Rightarrow> Toast list \<times> CartItem list" where
  "addToCart prd cart =
     (case find (\<lambda>item. p_id (product item) = p_id prd) cart of
        Some existingItem \<Rightarrow>
          if quantity existingItem \<ge> stock_quantity prd
          then ([ToastError ''Not enough stock available''], cart)
          else ([], map (\<lambda>item. if p_id (product item) = p_id prd
                                 then item\<lparr>quantity := quantity item + 1\<rparr>
                                 else item) cart)
      | None \<Rightarrow> ([], cart @ [\<lparr>product = prd, quantity = 1, discount = None\<rparr>]))"

text \<open>
  The callback that \<open>updateQuantity\<close> maps over the cart: the toasts it raises for one
  line, and the line it returns.
\<close>

definition updateLine :: "string \<Rightarrow> int \<Rightarrow> CartItem \<Rightarrow> Toast list \<times> CartItem" where
  "updateLine productId delta item =
     (if p_id (product item) = productId
      then (let newQuantity = quantity item + delta
            in if newQuantity \<le> 0 then ([], item)
               else if newQuantity > stock_quantity (product item)
               then ([ToastError ''Not enough stock available''], item)
               else ([], item\<lparr>quantity := newQuantity\<rparr>))
      else ([], item))"

definition updateQuantity :: "string \<Rightarrow> int \<Rightarrow> CartItem list \<Rightarrow> Toast list \<times> CartItem list" where
  "updateQuantity productId delta cart =
     (let results = map (updateLine productId delta) cart
      in (concat (map fst results),
          filter (\<lambda>item. quantity item > 0) (map snd results)))"

definition removeFromCart :: "string \<Rightarrow> CartItem list \<Rightarrow> CartItem list" where
  "removeFromCart productId cart = filter (\<lambda>item. p_id (product item) \<noteq> productId) cart"

definition applyDiscount ::
  "string \<Rightarrow> Discount option \<Rightarrow> CartItem list \<Rightarrow> Toast list \<times> CartItem list" where
  "applyDiscount productId dis cart =
     ((case dis of
         None \<Rightarrow> []
       | Some d \<Rightarrow> [ToastSuccess (''Applied '' @ [CHR 0x22] @ d_name d @ [CHR 0x22] @ '' discount'')]),
      map (\<lambda>item. if p_id (product item) = productId
                  then item\<lparr>discount := dis\<rparr>
                  else item) cart)"

definition removeDiscount :: "string \<Rightarrow> CartItem list \<Rightarrow> CartItem list" where
  "removeDiscount productId cart =
     map (\<lambda>item. if p_id (product item) = productId
                 then item\<lparr>discount := None\<rparr>
                 else item) cart"

section \<open>Cash tender\<close>

text \<open>
  The text of the cash field goes through \<open>parseFloat\<close>; its result is taken as an
  optional number, \<open>None\<close> standing for NaN, and read as a double.
  \<open>parseFloat(cashReceived) || 0\<close> turns NaN (and 0) into 0.
\<close>

definition cashReceivedAmount :: "rat option \<Rightarrow> rat" where
  "cashReceivedAmount parsed =
     (case parsed of None \<Rightarrow> 0 | Some v \<Rightarrow> if toDouble v = 0 then 0 else toDouble v)"

definition changeAmount :: "rat option \<Rightarrow> CartItem list \<Rightarrow> rat" where
  "changeAmount parsed cart = dsub (cashReceivedAmount parsed) (subtotal (calculateTotals cart))"

definition isValidCashPayment :: "PaymentMethod \<Rightarrow> rat option \<Rightarrow> CartItem list \<Rightarrow> bool" where
  "isValidCashPayment paymentMethod parsed cart =
     (paymentMethod = card \<or> cashReceivedAmount parsed \<ge> subtotal (calculateTotals cart))"

text \<open>
  The cash dialog shows a change panel only while the amount received is positive: the
  change to return, or the missing amount marked as short. Its Confirm button is disabled
  when the payment is not valid or the amount received is 0.
\<close>

datatype ChangePanel = ChangeToReturn rat | InsufficientAmount rat

definition changePanel :: "rat option \<Rightarrow> CartItem list \<Rightarrow> ChangePanel option" where
  "changePanel parsed cart =
     (if cashReceivedAmount parsed > 0
      then Some (if changeAmount parsed cart \<ge> 0
                 then ChangeToReturn (changeAmount parsed cart)
                 else InsufficientAmount \<bar>changeAmount parsed cart\<bar>)
      else None)"

definition confirmDisabled :: "PaymentMethod \<Rightarrow> rat option \<Rightarrow> CartItem list \<Rightarrow> bool" where
  "confirmDisabled paymentMethod parsed cart =
     (\<not> isValidCashPayment paymentMethod parsed cart \<or> cashReceivedAmount parsed = 0)"

section \<open>Checkout (handleInitiateCheckout, handleCashCheckout, processCheckout)\<close>

record SaleInsert =
  cashier_id :: string
  total_amount :: rat
  total_profit :: rat
  sale_discount_amount :: rat
  payment_method :: PaymentMethod

record SaleItemInsert =
  sale_id :: string
  product_id :: "string option"
  product_name :: string
  item_quantity :: int
  unit_price :: rat
  item_buying_price :: rat
  item_subtotal :: rat
  profit :: rat
  discount_id :: "string option"
  discount_type :: "DiscountType option"
  discount_value :: "rat option"
  discount_amount :: rat
  original_subtotal :: rat

record ReceiptData =
  saleId :: string
  items :: "CartItem list"
  receipt_subtotal :: rat
  receipt_totalDiscount :: rat
  total :: rat
  receipt_paymentMethod :: PaymentMethod
  cashReceived :: "rat option"
  receipt_changeAmount :: "rat option"
  date :: nat

text \<open>
  The requests the page sends to the persistence service. The service is a parameter:
  for each request it answers with success or failure (for the sale header, with the id
  of the new row).
\<close>

datatype DbWrite =
    InsertSale SaleInsert
  | InsertSaleItems "SaleItemInsert list"
  | UpdateStock string int
  | UpdateDiscount string string DiscountType rat
  | InsertDiscount string DiscountType rat string

record Supabase =
  insert_sale :: "SaleInsert \<Rightarrow> string option"
  insert_sale_items :: "SaleItemInsert list \<Rightarrow> bool"
  update_stock :: "string \<Rightarrow> int \<Rightarrow> bool"
  update_discount :: "string \<Rightarrow> string \<Rightarrow> DiscountType \<Rightarrow> rat \<Rightarrow> bool"
  insert_discount :: "string \<Rightarrow> DiscountType \<Rightarrow> rat \<Rightarrow> string \<Rightarrow> bool"

record Outcome =
  requests :: "DbWrite list"
  toasts :: "Toast list"
  showCashDialog :: bool
  receiptData :: "ReceiptData option"
  cartAfter :: "CartItem list"

text \<open>The row built for one cart line; \<open>x || null\<close> maps an empty string or 0 to null.\<close>

definition saleItem :: "string \<Rightarrow> CartItem \<Rightarrow> SaleItemInsert" where
  "saleItem sid item =
     (let originalItemSubtotal = dmul (selling_price (product item)) (of_int (quantity item));
          discountAmount = calculateItemDiscount item;
          finalSubtotal = calculateItemSubtotal item;
          prof = dsub finalSubtotal (dmul (buying_price (product item)) (of_int (quantity item)));
          isRefill = startsWith (p_id (product item)) ''refill-''
      in \<lparr>sale_id = sid,
          product_id = (if isRefill then None else Some (p_id (product item))),
          product_name = p_name (product item),
          item_quantity = quantity item,
          unit_price = selling_price (product item),
          item_buying_price = buying_price (product item),
          item_subtotal = finalSubtotal,
          profit = prof,
          discount_id = (case discount item of None \<Rightarrow> None
                         | Some d \<Rightarrow> if d_id d = [] then None else Some (d_id d)),
          discount_type = (case discount item of None \<Rightarrow> None | Some d \<Rightarrow> Some (d_type d)),
          discount_value = (case discount item of None \<Rightarrow> None
                            | Some d \<Rightarrow> if d_value d = 0 then None else Some (d_value d)),
          discount_amount = discountAmount,
          original_subtotal = originalItemSubtotal\<rparr>)"

definition saleItems :: "string \<Rightarrow> CartItem list \<Rightarrow> SaleItemInsert list" where
  "saleItems sid cart = map (saleItem sid) cart"

text \<open>
  The stock loop: refill lines are skipped; for every other line one update request is
  sent, and the first failure ends the loop. The result is the requests sent and whether
  all of them succeeded.
\<close>

fun updateStocks :: "Supabase \<Rightarrow> CartItem list \<Rightarrow> DbWrite list \<times> bool" where
  "updateStocks db [] = ([], True)"
| "updateStocks db (item # rest) =
     (if startsWith (p_id (product item)) ''refill-'' then updateStocks db rest
      else if update_stock db (p_id (product item)) (stock_quantity (product item) - quantity item)
      then (case updateStocks db rest of
              (ws, ok) \<Rightarrow>
                (UpdateStock (p_id (product item)) (stock_quantity (product item) - quantity item) # ws, ok))
      else ([UpdateStock (p_id (product item)) (stock_quantity (product item) - quantity item)], False))"

definition failedSale :: "DbWrite list \<Rightarrow> CartItem list \<Rightarrow> Outcome" where
  "failedSale sent cart =
     \<lparr>requests = sent, toasts = [ToastError ''Failed to process sale''],
      showCashDialog = False, receiptData = None, cartAfter = cart\<rparr>"

text \<open>
  \<open>processCheckout\<close> for the signed-in user \<open>uid\<close>: the sale header, then the line
  rows, then the stock updates; a failure at any step ends the sequence with the error
  toast and leaves the cart. Both callers run it with the cash dialog closed.
\<close>

definition processCheckout ::
  "Supabase \<Rightarrow> string \<Rightarrow> PaymentMethod \<Rightarrow> CartItem list \<Rightarrow> rat option \<Rightarrow> rat option \<Rightarrow> nat \<Rightarrow> Outcome" where
  "processCheckout db uid paymentMethod cart cashAmount change now =
     (let t = calculateTotals cart;
          sale = \<lparr>cashier_id = uid, total_amount = subtotal t, total_profit = totalProfit t,
                  sale_discount_amount = totalDiscount t, payment_method = paymentMethod\<rparr>
      in case insert_sale db sale of
           None \<Rightarrow> failedSale [InsertSale sale] cart
         | Some sid \<Rightarrow>
             if \<not> insert_sale_items db (saleItems sid cart)
             then failedSale [InsertSale sale, InsertSaleItems (saleItems sid cart)] cart
             else (case updateStocks db cart of
                     (ws, False) \<Rightarrow>
                       failedSale ([InsertSale sale, InsertSaleItems (saleItems sid cart)] @ ws) cart
                   | (ws, True) \<Rightarrow>
                       \<lparr>requests = [InsertSale sale, InsertSaleItems (saleItems sid cart)] @ ws,
                        toasts = [ToastSuccess ''Sale completed successfully!''],
                        showCashDialog = False,
                        receiptData = Some \<lparr>saleId = sid, items = cart,
                                             receipt_subtotal = originalSubtotal t,
                                             receipt_totalDiscount = totalDiscount t,
                                             total = subtotal t,
                                             receipt_paymentMethod = paymentMethod,
                                             cashReceived = cashAmount,
                                             receipt_changeAmount = change,
                                             date = now\<rparr>,
                        cartAfter = []\<rparr>))"

definition handleInitiateCheckout ::
  "Supabase \<Rightarrow> string option \<Rightarrow> AppRole option \<Rightarrow> PaymentMethod \<Rightarrow> CartItem list \<Rightarrow> nat \<Rightarrow> Outcome" where
  "handleInitiateCheckout db user role paymentMethod cart now =
     (if length cart = 0
      then \<lparr>requests = [], toasts = [ToastError ''Cart is empty''],
            showCashDialog = False, receiptData = None, cartAfter = cart\<rparr>
      else case (user, role) of
             (Some uid, Some r) \<Rightarrow>
               if paymentMethod = cash
               then \<lparr>requests = [], toasts = [], showCashDialog = True,
                     receiptData = None, cartAfter = cart\<rparr>
               else processCheckout db uid paymentMethod cart None None now
           | _ \<Rightarrow> \<lparr>requests = [], toasts = [ToastError ''You must be logged in to process sales''],
                   showCashDialog = False, receiptData = None, cartAfter = cart\<rparr>)"

definition handleCashCheckout ::
  "Supabase \<Rightarrow> string \<Rightarrow> PaymentMethod \<Rightarrow> CartItem list \<Rightarrow> rat option \<Rightarrow> nat \<Rightarrow> Outcome" where
  "handleCashCheckout db uid paymentMethod cart parsed now =
     (if cashReceivedAmount parsed < subtotal (calculateTotals cart)
      then \<lparr>requests = [], toasts = [ToastError ''Insufficient cash received''],
            showCashDialog = True, receiptData = None, cartAfter = cart\<rparr>
      else processCheckout db uid paymentMethod cart
             (Some (cashReceivedAmount parsed)) (Some (changeAmount parsed cart)) now)"

text \<open>
  A press of the Confirm button of the cash dialog: nothing happens while the button is
  disabled, and otherwise \<open>handleCashCheckout\<close> runs. The button is the handler's only
  caller.
\<close>

definition confirmPayment ::
  "Supabase \<Rightarrow> string \<Rightarrow> PaymentMethod \<Rightarrow> CartItem list \<Rightarrow> rat option \<Rightarrow> nat \<Rightarrow> Outcome" where
  "confirmPayment db uid paymentMethod cart parsed now =
     (if confirmDisabled paymentMethod parsed cart
      then \<lparr>requests = [], toasts = [], showCashDialog = True, receiptData = None,
            cartAfter = cart\<rparr>
      else handleCashCheckout db uid paymentMethod cart parsed now)"

section \<open>Saving a discount (Discounts page, handleSave)\<close>

text \<open>
  The form holds the name, the kind and the text of the value; \<open>parseFloat\<close> of that
  text is taken as an optional number (\<open>None\<close> for NaN). White space is the ASCII white
  space and the no-break space.
\<close>

definition isWhiteSpace :: "char \<Rightarrow> bool" where
  "isWhiteSpace c = (c \<in> set [CHR 0x09, CHR 0x0A, CHR 0x0B, CHR 0x0C, CHR 0x0D, CHR 0x20, CHR 0xA0])"

definition trim :: "string \<Rightarrow> string" where
  "trim s = rev (dropWhile isWhiteSpace (rev (dropWhile isWhiteSpace s)))"

definition handleSave ::
  "Supabase \<Rightarrow> string \<Rightarrow> Discount option \<Rightarrow> string \<Rightarrow> DiscountType \<Rightarrow> rat option
     \<Rightarrow> DbWrite list \<times> Toast list" where
  "handleSave db uid editingDiscount name type parsed =
     (if trim name = [] then ([], [ToastError ''Please enter a discount name''])
      else case parsed of
             None \<Rightarrow> ([], [ToastError ''Please enter a valid value greater than 0''])
           | Some numValue \<Rightarrow>
               if numValue \<le> 0
               then ([], [ToastError ''Please enter a valid value greater than 0''])
               else if type = percentage \<and> numValue > 100
               then ([], [ToastError ''Percentage cannot exceed 100%''])
               else (case editingDiscount of
                       Some e \<Rightarrow>
                         ([UpdateDiscount (d_id e) (trim name) type numValue],
                          if update_discount db (d_id e) (trim name) type numValue
                          then [ToastSuccess ''Discount updated successfully'']
                          else [ToastError ''Failed to save discount''])
                     | None \<Rightarrow>
                         ([InsertDiscount (trim name) type numValue uid],
                          if insert_discount db (trim name) type numValue uid
                          then [ToastSuccess ''Discount created successfully'']
                          else [ToastError ''Failed to save discount''])))"

section \<open>Sample data\<close>

text \<open>A stocked product, used to run the operations on concrete carts.\<close>

definition bottle :: Product where
  "bottle = \<lparr>p_id = ''p1'', p_name = ''Bottle'', barcode = None, category_id = None,
             brand_id = None, buying_price = 100, selling_price = 150, stock_quantity = 5,
             low_stock_threshold = 1, created_at = [], updated_at = []\<rparr>"

text \<open>A persistence service that accepts every request.\<close>

definition okDb :: Supabase where
  "okDb = \<lparr>insert_sale = (\<lambda>s. Some ''s1''), insert_sale_items = (\<lambda>rows. True),
           update_stock = (\<lambda>pid n. True), update_discount = (\<lambda>i n t v. True),
           insert_discount = (\<lambda>n t v u. True)\<rparr>"

text \<open>A refill line as \<open>addRefillToCart\<close> makes it, and a line of two bottles.\<close>

definition refillLine :: CartItem where
  "refillLine =
     \<lparr>product = \<lparr>p_id = ''refill-1'', p_name = ''Refill'', barcode = None,
                  category_id = None, brand_id = None, buying_price = 0, selling_price = 50,
                  stock_quantity = 999, low_stock_threshold = 0,
                  created_at = [], updated_at = []\<rparr>,
      quantity = 1, discount = None\<rparr>"

definition bottleLine :: CartItem where
  "bottleLine = \<lparr>product = bottle, quantity = 2, discount = None\<rparr>"

text \<open>A fixed discount above the bottle's price, and a percentage above 100.\<close>

definition bigDiscount :: Discount where
  "bigDiscount = \<lparr>d_id = ''d1'', d_name = ''Big'', d_type = fixed, d_value = 200,
                   is_active = True, created_by = ''u1''\<rparr>"

definition overDiscounted :: "CartItem list" where
  "overDiscounted = [\<lparr>product = bottle, quantity = 1, discount = Some bigDiscount\<rparr>]"

definition overHundred :: Discount where
  "overHundred = \<lparr>d_id = ''d2'', d_name = ''Over'', d_type = percentage, d_value = 150,
                   is_active = True, created_by = ''u1''\<rparr>"

text \<open>A discount of 100 percent and a cart of one bottle under it.\<close>

definition fullDiscount :: Discount where
  "fullDiscount = \<lparr>d_id = ''d3'', d_name = ''Free'', d_type = percentage, d_value = 100,
                    is_active = True, created_by = ''u1''\<rparr>"

definition freeCart :: "CartItem list" where
  "freeCart = [\<lparr>product = bottle, quantity = 1, discount = Some fullDiscount\<rparr>]"

text \<open>Three units at 1.10.\<close>

definition centsLine :: CartItem where
  "centsLine =
     \<lparr>product = \<lparr>p_id = ''p2'', p_name = ''Cap'', barcode = None, category_id = None,
                  brand_id = None, buying_price = 1, selling_price = toDouble (11 / 10),
                  stock_quantity = 10, low_stock_threshold = 1,
                  created_at = [], updated_at = []\<rparr>,
      quantity = 3, discount = None\<rparr>"

section \<open>Properties of the arithmetic\<close>

lemma pow2_pos: "0 < pow2 e"
  by (simp add: pow2_def)

lemma roundHalfEven_nonneg: "0 \<le> y \<Longrightarrow> 0 \<le> roundHalfEven y"
  by (simp add: roundHalfEven_def Let_def)

lemma roundHalfEven_of_int: "roundHalfEven (of_int m) = m"
  by (simp add: roundHalfEven_def Let_def)

lemma toDouble_nonneg: "0 \<le> x \<Longrightarrow> 0 \<le> toDouble x"
  by (simp add: toDouble_def ulp_def pow2_pos roundHalfEven_nonneg less_imp_le)

lemma toDouble_0: "toDouble 0 = 0"
  by (simp add: toDouble_def)

text \<open>
  \<open>exponent\<close> is the binary exponent, and \<open>toDouble\<close> is within half a unit in the
  last place of its argument.
\<close>

lemma pow2_powi: "pow2 e = 2 powi e"
  by (simp add: pow2_def power_int_def field_simps)

lemma bitlen_pos_bounds:
  assumes "0 < m"
  shows "(2::rat) powi (bitlen m - 1) \<le> of_int m" and "of_int m < (2::rat) powi (bitlen m)"
proof -
  from bitlen_bounds [OF assms]
  have lo: "2 ^ nat (bitlen m - 1) \<le> m" and hi: "m < 2 ^ nat (bitlen m)" by simp_all
  have pos: "1 \<le> bitlen m" using assms by (simp add: bitlen_ge_iff_power)
  from lo have "(of_int (2 ^ nat (bitlen m - 1)) :: rat) \<le> of_int m"
    by (simp only: of_int_le_iff)
  with pos show "(2::rat) powi (bitlen m - 1) \<le> of_int m"
    by (simp add: power_int_def)
  from hi have "(of_int m :: rat) < of_int (2 ^ nat (bitlen m))"
    by (simp only: of_int_less_iff)
  with pos show "of_int m < (2::rat) powi (bitlen m)"
    by (simp add: power_int_def)
qed

lemma exponent_bounds:
  assumes "x \<noteq> 0"
  shows "pow2 (exponent x) \<le> \<bar>x\<bar> \<and> \<bar>x\<bar> < pow2 (exponent x + 1)"
proof -
  obtain p q where pq: "quotient_of x = (p, q)" by (cases "quotient_of x")
  then have q: "0 < q" and x: "x = of_int p / of_int q"
    by (rule quotient_of_denom_pos, rule quotient_of_div)
  from assms x q have p: "0 < \<bar>p\<bar>" by auto
  define d where "d = bitlen \<bar>p\<bar> - bitlen q"
  have ax: "\<bar>x\<bar> = of_int \<bar>p\<bar> / of_int q" using x q by (simp add: abs_divide)
  have qhi: "(of_int q :: rat) < 2 powi (bitlen q)" and qlo: "(2::rat) powi (bitlen q - 1) \<le> of_int q"
    using bitlen_pos_bounds [OF q] by simp_all
  have phi: "(of_int \<bar>p\<bar> :: rat) < 2 powi (bitlen \<bar>p\<bar>)" and plo: "(2::rat) powi (bitlen \<bar>p\<bar> - 1) \<le> of_int \<bar>p\<bar>"
    using bitlen_pos_bounds [OF p] by simp_all
  have qpos: "(0::rat) < of_int q" using q by simp
  have lower: "(2::rat) powi (d - 1) < \<bar>x\<bar>"
  proof -
    have "(2::rat) powi (d - 1) * of_int q < 2 powi (d - 1) * 2 powi (bitlen q)"
      using qhi by (simp add: mult_strict_left_mono)
    also have "\<dots> = 2 powi (bitlen \<bar>p\<bar> - 1)"
      by (simp add: d_def flip: power_int_add)
    also have "\<dots> \<le> of_int \<bar>p\<bar>" by (rule plo)
    finally show ?thesis using qpos by (simp add: ax pos_less_divide_eq)
  qed
  have upper: "\<bar>x\<bar> < (2::rat) powi (d + 1)"
  proof -
    have "(of_int \<bar>p\<bar> :: rat) < 2 powi (bitlen \<bar>p\<bar>)" by (rule phi)
    also have "\<dots> = 2 powi (d + 1) * 2 powi (bitlen q - 1)"
      by (simp add: d_def flip: power_int_add)
    also have "\<dots> \<le> 2 powi (d + 1) * of_int q"
      using qlo by (simp add: mult_left_mono)
    finally show ?thesis using qpos by (simp add: ax pos_divide_less_eq)
  qed
  have e: "exponent x = (if 2 powi d \<le> \<bar>x\<bar> then d else d - 1)"
    by (simp add: exponent_def pq d_def Let_def pow2_powi)
  show ?thesis
  proof (cases "(2::rat) powi d \<le> \<bar>x\<bar>")
    case True
    with e upper show ?thesis by (simp add: pow2_powi)
  next
    case False
    with e lower show ?thesis by (simp add: pow2_powi)
  qed
qed


lemma roundHalfEven_error: "\<bar>of_int (roundHalfEven y) - y\<bar> \<le> 1 / 2"
proof -
  have "of_int \<lfloor>y\<rfloor> \<le> y" and "y < of_int \<lfloor>y\<rfloor> + 1" by linarith+
  then show ?thesis
    by (auto simp add: roundHalfEven_def Let_def abs_le_iff)
qed

lemma toDouble_error: "\<bar>toDouble x - x\<bar> \<le> ulp x / 2"
proof (cases "x = 0")
  case True
  then show ?thesis by (simp add: toDouble_def ulp_def pow2_pos less_imp_le)
next
  case False
  have u: "0 < ulp x" by (simp add: ulp_def pow2_pos)
  have "toDouble x - x = ulp x * (of_int (roundHalfEven (x / ulp x)) - x / ulp x)"
    using False u by (simp add: toDouble_def right_diff_distrib)
  then have "\<bar>toDouble x - x\<bar> = ulp x * \<bar>of_int (roundHalfEven (x / ulp x)) - x / ulp x\<bar>"
    using u by (simp add: abs_mult)
  also have "\<dots> \<le> ulp x * (1 / 2)"
    using u roundHalfEven_error [of "x / ulp x"] by (intro mult_left_mono) simp_all
  finally show ?thesis by simp
qed

text \<open>
  A multiple of a power of two at or above \<open>2 ^ -1074\<close> by an integer of at most 53 bits
  is a double; every result of \<open>toDouble\<close> is of that form, so \<open>toDouble\<close> is
  idempotent.
\<close>

lemma exponent_less:
  assumes "x \<noteq> 0" and "\<bar>x\<bar> < pow2 n"
  shows "exponent x < n"
proof (rule ccontr)
  assume "\<not> exponent x < n"
  then have "n \<le> exponent x" by simp
  then have "(2::rat) powi n \<le> 2 powi (exponent x)"
    by (intro power_int_increasing) simp_all
  also have "\<dots> \<le> \<bar>x\<bar>" using exponent_bounds [OF assms(1)] by (simp add: pow2_powi)
  finally show False using assms(2) by (simp add: pow2_powi)
qed

lemma roundHalfEven_upper: "z < of_int n \<Longrightarrow> roundHalfEven z \<le> n"
proof -
  assume "z < of_int n"
  then have "\<lfloor>z\<rfloor> < n" by (simp add: floor_less_iff)
  then show ?thesis by (simp add: roundHalfEven_def Let_def)
qed

lemma roundHalfEven_lower: "of_int n < z \<Longrightarrow> n \<le> roundHalfEven z"
proof -
  assume "of_int n < z"
  then have "n \<le> \<lfloor>z\<rfloor>" by (simp add: le_floor_iff)
  then show ?thesis by (simp add: roundHalfEven_def Let_def)
qed

lemma representable_fixed:
  assumes x: "x = pow2 j * of_int k" and k: "\<bar>k\<bar> < 2 ^ 53" and j: "- 1074 \<le> j"
  shows "toDouble x = x"
proof (cases "x = 0")
  case True
  then show ?thesis by (simp add: toDouble_def)
next
  case False
  have "\<bar>x\<bar> = 2 powi j * of_int \<bar>k\<bar>"
    by (simp add: x abs_mult pow2_powi)
  also have "\<dots> < 2 powi j * 2 ^ 53"
  proof -
    have "(of_int \<bar>k\<bar> :: rat) < of_int (2 ^ 53)" using k by (simp only: of_int_less_iff)
    then show ?thesis by (simp add: mult_strict_left_mono)
  qed
  also have "\<dots> = 2 powi (j + 53)"
    by (simp add: power_int_add)
  finally have "\<bar>x\<bar> < pow2 (j + 53)" by (simp add: pow2_powi)
  with False have "exponent x < j + 53" by (rule exponent_less)
  define J where "J = max (exponent x) (- 1022) - 52"
  from \<open>exponent x < j + 53\<close> j have le: "J \<le> j" by (simp add: J_def)
  have u: "ulp x = 2 powi J" by (simp add: ulp_def J_def pow2_powi)
  have "x / ulp x = x / 2 powi J" by (simp only: u)
  also have "\<dots> = of_int k * (2 powi j / 2 powi J)"
    by (simp add: x pow2_powi)
  also have "2 powi j / 2 powi J = (2::rat) powi (j - J)"
    by (simp add: power_int_diff)
  also have "\<dots> = 2 ^ nat (j - J)"
    using le by (simp add: power_int_def)
  finally have "x / ulp x = of_int (k * 2 ^ nat (j - J))" by simp
  then have "roundHalfEven (x / ulp x) = k * 2 ^ nat (j - J)"
    by (simp only: roundHalfEven_of_int)
  then have "toDouble x = 2 powi J * (of_int k * 2 ^ nat (j - J))"
    using False by (simp add: toDouble_def u)
  also have "(2::rat) ^ nat (j - J) = 2 powi (j - J)"
    using le by (simp add: power_int_def)
  also have "2 powi J * (of_int k * 2 powi (j - J)) = (2 powi J * 2 powi (j - J)) * (of_int k :: rat)"
    by simp
  also have "(2::rat) powi J * 2 powi (j - J) = 2 powi j"
    by (simp flip: power_int_add)
  finally show ?thesis by (simp add: x pow2_powi)
qed

lemma representable_fixed_le:
  assumes x: "x = pow2 j * of_int k" and k: "\<bar>k\<bar> \<le> 2 ^ 53" and j: "- 1074 \<le> j"
  shows "toDouble x = x"
proof (cases "\<bar>k\<bar> < 2 ^ 53")
  case True
  with x j show ?thesis by (intro representable_fixed [of x j k]) simp_all
next
  case False
  with k have "k = 2 ^ 53 \<or> k = - (2 ^ 53)" by linarith
  then have "k = 2 * (k div 2)" and "\<bar>k div 2\<bar> < 2 ^ 53" by auto
  then have "x = pow2 (j + 1) * of_int (k div 2)"
  proof -
    have "(of_int k :: rat) = 2 * of_int (k div 2)"
      using \<open>k = 2 * (k div 2)\<close> by (metis of_int_mult of_int_numeral)
    then show ?thesis by (simp add: x pow2_powi power_int_add)
  qed
  with \<open>\<bar>k div 2\<bar> < 2 ^ 53\<close> j show ?thesis
    by (intro representable_fixed [of x "j + 1" "k div 2"]) simp_all
qed

lemma toDouble_form:
  "\<exists>k. toDouble x = pow2 (max (exponent x) (- 1022) - 52) * of_int k \<and> \<bar>k\<bar> \<le> 2 ^ 53"
proof (cases "x = 0")
  case True
  then show ?thesis by (intro exI [of _ 0]) (simp add: toDouble_def)
next
  case False
  define E where "E = max (exponent x) (- 1022)"
  have u: "ulp x = 2 powi (E - 52)" by (simp add: ulp_def E_def pow2_powi)
  have upos: "0 < ulp x" by (simp add: u)
  have "\<bar>x\<bar> < 2 powi (exponent x + 1)"
    using exponent_bounds [OF False] by (simp add: pow2_powi)
  also have "\<dots> \<le> 2 powi (E + 1)"
    by (intro power_int_increasing) (simp_all add: E_def)
  also have "E + 1 = (E - 52) + 53" by simp
  also have "(2::rat) powi ((E - 52) + 53) = 2 powi (E - 52) * 2 powi 53"
    by (rule power_int_add) simp
  also have "(2::rat) powi 53 = 2 ^ 53" by simp
  finally have "\<bar>x\<bar> / ulp x < 2 ^ 53"
    using upos by (simp add: u pos_divide_less_eq mult.commute)
  then have "\<bar>x / ulp x\<bar> < 2 ^ 53"
    using upos by (simp add: abs_divide)
  then have "x / ulp x < 2 ^ 53" and "- (2 ^ 53) < x / ulp x"
    by (simp_all only: abs_less_iff minus_less_iff [of "x / ulp x"])
  then have "x / ulp x < of_int (2 ^ 53)" and "of_int (- (2 ^ 53)) < x / ulp x"
    by simp_all
  then have "roundHalfEven (x / ulp x) \<le> 2 ^ 53" and "- (2 ^ 53) \<le> roundHalfEven (x / ulp x)"
    by (simp_all only: roundHalfEven_upper roundHalfEven_lower)
  then have "\<bar>roundHalfEven (x / ulp x)\<bar> \<le> 2 ^ 53" by (simp add: abs_le_iff)
  with False show ?thesis
    by (intro exI [of _ "roundHalfEven (x / ulp x)"]) (simp add: toDouble_def ulp_def)
qed

lemma toDouble_idem: "toDouble (toDouble x) = toDouble x"
proof -
  obtain k where "toDouble x = pow2 (max (exponent x) (- 1022) - 52) * of_int k"
    and "\<bar>k\<bar> \<le> 2 ^ 53" using toDouble_form by blast
  then show ?thesis
    by (intro representable_fixed_le [of _ "max (exponent x) (- 1022) - 52" k]) simp_all
qed

lemma toDouble_isDouble: "isDouble (toDouble x)"
  by (simp add: isDouble_def toDouble_idem)

lemma dsub_nonneg: "isDouble x \<Longrightarrow> isDouble y \<Longrightarrow> y \<le> x \<Longrightarrow> 0 \<le> dsub x y"
  by (simp add: dsub_def isDouble_def toDouble_nonneg)

text \<open>
  Doubles lie on the grid of step \<open>2 ^ -1074\<close>, so the difference of two distinct
  doubles does not round to 0: subtracting a larger double gives a negative double.
\<close>

lemma roundHalfEven_le_minus_one: "w \<le> - 1 \<Longrightarrow> roundHalfEven w \<le> - 1"
proof -
  assume w: "w \<le> - 1"
  then have f: "\<lfloor>w\<rfloor> \<le> - 1" by (simp add: floor_le_iff)
  show ?thesis
  proof (cases "\<lfloor>w\<rfloor> = - 1")
    case True
    then have "- 1 \<le> w" by (metis of_int_floor_le of_int_minus of_int_1)
    with w have "w = of_int (- 1)" by simp
    then show ?thesis by (simp only: roundHalfEven_of_int)
  next
    case False
    with f have "\<lfloor>w\<rfloor> + 1 \<le> - 1" by simp
    then show ?thesis by (auto simp add: roundHalfEven_def Let_def)
  qed
qed

lemma double_grid: "\<exists>n. toDouble x = pow2 (- 1074) * of_int n"
proof -
  obtain k where k: "toDouble x = pow2 (max (exponent x) (- 1022) - 52) * of_int k"
    using toDouble_form by blast
  define J where "J = max (exponent x) (- 1022) - 52"
  have J: "- 1074 \<le> J" by (simp add: J_def)
  have "(2::rat) powi J = 2 powi (- 1074 + (J + 1074))" by simp
  also have "\<dots> = 2 powi (- 1074) * 2 powi (J + 1074)"
    by (rule power_int_add) simp
  also have "(2::rat) powi (J + 1074) = 2 ^ nat (J + 1074)"
    using J by (simp add: power_int_def)
  finally have "pow2 J = pow2 (- 1074) * of_int (2 ^ nat (J + 1074))"
    by (simp add: pow2_powi)
  then have "toDouble x = pow2 (- 1074) * of_int (2 ^ nat (J + 1074) * k)"
    using k by (simp add: J_def)
  then show ?thesis by blast
qed

lemma toDouble_negative:
  assumes z: "z = pow2 (- 1074) * of_int n" and neg: "z < 0"
  shows "toDouble z < 0"
proof -
  from neg have nz: "z \<noteq> 0" by simp
  define E where "E = max (exponent z) (- 1022)"
  have u: "ulp z = 2 powi (E - 52)" by (simp add: ulp_def E_def pow2_powi)
  have upos: "0 < ulp z" by (simp add: u)
  have "ulp z \<le> \<bar>z\<bar>"
  proof (cases "- 1022 \<le> exponent z")
    case True
    then have "E = exponent z" by (simp add: E_def)
    then have "ulp z \<le> 2 powi (exponent z)"
      by (simp add: u power_int_increasing)
    also have "\<dots> \<le> \<bar>z\<bar>" using exponent_bounds [OF nz] by (simp add: pow2_powi)
    finally show ?thesis .
  next
    case False
    then have "ulp z = pow2 (- 1074)" by (simp add: u E_def pow2_powi)
    moreover from nz z have "n \<noteq> 0" by auto
    then have "1 \<le> \<bar>n\<bar>" by simp
    then have "(of_int 1 :: rat) \<le> of_int \<bar>n\<bar>" by (simp only: of_int_le_iff)
    then have "(1::rat) \<le> of_int \<bar>n\<bar>" by simp
    then have "pow2 (- 1074) * 1 \<le> pow2 (- 1074) * of_int \<bar>n\<bar>"
      by (intro mult_left_mono) (simp_all add: pow2_pos less_imp_le)
    ultimately show ?thesis by (simp add: z abs_mult pow2_pos less_imp_le)
  qed
  with neg have "ulp z \<le> - z" by simp
  with upos have "z / ulp z \<le> - 1" by (simp add: pos_divide_le_eq)
  then have "roundHalfEven (z / ulp z) \<le> - 1" by (rule roundHalfEven_le_minus_one)
  then have "(of_int (roundHalfEven (z / ulp z)) :: rat) < 0" by simp
  with upos have "ulp z * of_int (roundHalfEven (z / ulp z)) < 0"
    by (simp add: mult_pos_neg)
  with nz show ?thesis by (simp add: toDouble_def)
qed

lemma dsub_negative:
  assumes "isDouble x" and "isDouble y" and "x < y"
  shows "dsub x y < 0"
proof -
  obtain n m where "toDouble x = pow2 (- 1074) * of_int n" and "toDouble y = pow2 (- 1074) * of_int m"
    using double_grid by blast
  with assms(1,2) have "x - y = pow2 (- 1074) * of_int (n - m)"
    by (simp add: isDouble_def right_diff_distrib)
  moreover from assms(3) have "x - y < 0" by simp
  ultimately have "toDouble (x - y) < 0" by (rule toDouble_negative)
  with assms(1,2) show ?thesis by (simp add: dsub_def isDouble_def)
qed

text \<open>Every integer below \<open>2 ^ 53\<close> in magnitude is a double.\<close>

lemma toDouble_of_int:
  assumes "\<bar>n\<bar> < 2 ^ 53"
  shows "toDouble (of_int n) = of_int n"
  using assms by (intro representable_fixed [of _ 0 n]) (simp_all add: pow2_def)

lemma toDouble_numeral:
  "numeral k < (2::int) ^ 53 \<Longrightarrow> toDouble (numeral k) = numeral k"
  using toDouble_of_int [of "numeral k"] by simp

lemma toDouble_neg_numeral:
  "numeral k < (2::int) ^ 53 \<Longrightarrow> toDouble (- numeral k) = - numeral k"
  using toDouble_of_int [of "- numeral k"] by simp

lemma toDouble_1: "toDouble 1 = 1"
  using toDouble_of_int [of 1] by simp

lemma toDouble_three_halves: "toDouble (3 / 2) = 3 / 2"
  by code_simp

lemmas double_eval =
  dadd_def dsub_def dmul_def ddiv_def toDouble_numeral toDouble_neg_numeral
  toDouble_0 toDouble_1

text \<open>
  Rounding is visible on ordinary prices: 1.10 times 3 is 3.3000000000000003 (the first
  fraction below, over \<open>2 ^ 51\<close>), one unit in the last place above the double nearest
  to 3.30 (the second fraction, over \<open>2 ^ 50\<close>); and 0.1 + 0.2 + 0.3, added from the
  left, is 0.6000000000000001, not the double nearest to 0.6.
\<close>

lemma three_times_one_ten:
  "dmul (11 / 10) 3 = 7430939385161319 / 2251799813685248"
  by code_simp

lemma three_thirty: "toDouble (33 / 10) = 3715469692580659 / 1125899906842624"
  by code_simp

lemma tenths_from_the_left:
  "dadd (dadd (1 / 10) (2 / 10)) (3 / 10) = 1351079888211149 / 2251799813685248
   \<and> toDouble (6 / 10) = 5404319552844595 / 9007199254740992"
  by code_simp

section \<open>Properties of the pricing functions\<close>


text \<open>
  C2. For a single line with unit price p, quantity q and optional discount d, the line
  discount is 0 without a discount, p * q * (value / 100) for a percentage discount and
  value * q for a fixed one; the line net is max 0 (p * q - line discount) and is never
  negative. The products, the quotient and the difference are the code's, each rounded
  to a double.
\<close>

theorem line_discount_and_net:
  "calculateItemDiscount item =
     (case discount item of
        None \<Rightarrow> 0
      | Some d \<Rightarrow>
          (case d_type d of
             percentage \<Rightarrow>
               dmul (dmul (selling_price (product item)) (of_int (quantity item)))
                 (ddiv (d_value d) 100)
           | fixed \<Rightarrow> dmul (d_value d) (of_int (quantity item))))
   \<and> calculateItemSubtotal item
       = max 0 (dsub (dmul (selling_price (product item)) (of_int (quantity item)))
                  (calculateItemDiscount item))
   \<and> 0 \<le> calculateItemSubtotal item"
  by (simp add: calculateItemDiscount_def calculateItemSubtotal_def Let_def
        split: option.split DiscountType.split)

text \<open>
  C8. The permission table: the super admin holds all eight capabilities, the manager
  exactly the four of viewing buying prices, viewing profit, managing products and
  viewing reports, and the cashier none.
\<close>

theorem role_permissions_table:
  "getRolePermissions super_admin =
     \<lparr>canManageUsers = True, canViewBuyingPrice = True, canViewProfit = True,
      canManageProducts = True, canViewReports = True, canOverrideTransactions = True,
      canAccessSettings = True, canViewActivityLogs = True\<rparr>
   \<and> getRolePermissions manager =
     \<lparr>canManageUsers = False, canViewBuyingPrice = True, canViewProfit = True,
      canManageProducts = True, canViewReports = True, canOverrideTransactions = False,
      canAccessSettings = False, canViewActivityLogs = False\<rparr>
   \<and> getRolePermissions cashier =
     \<lparr>canManageUsers = False, canViewBuyingPrice = False, canViewProfit = False,
      canManageProducts = False, canViewReports = False, canOverrideTransactions = False,
      canAccessSettings = False, canViewActivityLogs = False\<rparr>"
  by (simp add: getRolePermissions_def)

section \<open>Properties of the cart operations\<close>

lemma updateQuantity_Cons:
  "updateQuantity X delta (item # cart) =
     (fst (updateLine X delta item) @ fst (updateQuantity X delta cart),
      (if quantity (snd (updateLine X delta item)) > 0
       then [snd (updateLine X delta item)] else [])
        @ snd (updateQuantity X delta cart))"
  by (simp add: updateQuantity_def Let_def)

lemma updateQuantity_other_lines:
  assumes "\<forall>item\<in>set cart. 0 < quantity item"
      and "\<forall>item\<in>set cart. p_id (product item) \<noteq> X"
  shows "updateQuantity X delta cart = ([], cart)"
  using assms by (induction cart) (auto simp add: updateQuantity_def updateLine_def Let_def)

text \<open>
  C3, as stated, fails: stepping the only line of a cart from quantity 1 by -1 leaves the
  line in the cart, whereas \<open>removeFromCart\<close> empties the cart.
\<close>

theorem updateQuantity_nonpositive_counterexample:
  "updateQuantity ''p1'' (-1) [\<lparr>product = bottle, quantity = 1, discount = None\<rparr>]
     = ([], [\<lparr>product = bottle, quantity = 1, discount = None\<rparr>])
   \<and> removeFromCart ''p1'' [\<lparr>product = bottle, quantity = 1, discount = None\<rparr>] = []"
  by (simp add: updateQuantity_def updateLine_def removeFromCart_def bottle_def)

text \<open>
  C3, amended. In a cart whose lines all have a positive quantity, an adjustment by
  \<open>updateQuantity\<close> whose resulting quantity for the line of product X is at most 0 is
  ignored: no toast is raised and the cart, the line for X included, is as before.
\<close>

theorem updateQuantity_nonpositive_ignored:
  assumes "\<forall>item\<in>set cart. 0 < quantity item"
      and "\<forall>item\<in>set cart. p_id (product item) = X \<longrightarrow> quantity item + delta \<le> 0"
  shows "updateQuantity X delta cart = ([], cart)"
  using assms
  by (induction cart) (auto simp add: updateQuantity_def updateLine_def Let_def)

theorem updateQuantity_nonpositive_ignored_witness:
  "updateQuantity ''p1'' (-3) [\<lparr>product = bottle, quantity = 2, discount = None\<rparr>]
     = ([], [\<lparr>product = bottle, quantity = 2, discount = None\<rparr>])"
  using updateQuantity_nonpositive_ignored
          [of "[\<lparr>product = bottle, quantity = 2, discount = None\<rparr>]" "''p1''" "-3"]
  by simp

text \<open>
  C4. In a cart whose lines have positive quantities and pairwise different product ids,
  take the line for product X. Adding a product that is already present at or above
  the product's stock, and adjusting the line for X to a quantity above its stock, both
  raise the stock error and leave the whole cart as it was.
\<close>

theorem stock_ceiling_rejects_and_keeps_cart:
  assumes inv: "\<forall>i\<in>set cart. 0 < quantity i"
      and dist: "distinct (map (\<lambda>i. p_id (product i)) cart)"
      and line: "item \<in> set cart" "p_id (product item) = X"
  shows "(find (\<lambda>i. p_id (product i) = p_id prd) cart = Some existing
            \<and> stock_quantity prd \<le> quantity existing
          \<longrightarrow> addToCart prd cart = ([ToastError ''Not enough stock available''], cart))
       \<and> (0 \<le> stock_quantity (product item)
            \<and> stock_quantity (product item) < quantity item + delta
          \<longrightarrow> updateQuantity X delta cart = ([ToastError ''Not enough stock available''], cart))"
proof (intro conjI impI)
  assume "find (\<lambda>i. p_id (product i) = p_id prd) cart = Some existing
            \<and> stock_quantity prd \<le> quantity existing"
  then show "addToCart prd cart = ([ToastError ''Not enough stock available''], cart)"
    by (simp add: addToCart_def)
next
  assume over: "0 \<le> stock_quantity (product item)
                  \<and> stock_quantity (product item) < quantity item + delta"
  from inv dist line
  show "updateQuantity X delta cart = ([ToastError ''Not enough stock available''], cart)"
  proof (induction cart)
    case Nil
    then show ?case by simp
  next
    case (Cons a cart)
    show ?case
    proof (cases "a = item")
      case True
      with Cons.prems have others: "\<forall>i\<in>set cart. p_id (product i) \<noteq> X"
        by (auto simp: image_iff)
      from Cons.prems have "\<forall>i\<in>set cart. 0 < quantity i" by simp
      with others have rest: "updateQuantity X delta cart = ([], cart)"
        by (simp add: updateQuantity_other_lines)
      from Cons.prems True have "0 < quantity item" by simp
      with True over Cons.prems(4) rest show ?thesis
        by (simp add: updateQuantity_Cons updateLine_def Let_def)
    next
      case False
      with Cons.prems have in_rest: "item \<in> set cart" by simp
      with Cons.prems have "p_id (product a) \<noteq> X" by force
      moreover from Cons.prems in_rest
      have "updateQuantity X delta cart = ([ToastError ''Not enough stock available''], cart)"
        by (intro Cons.IH) simp_all
      moreover from Cons.prems have "0 < quantity a" by simp
      ultimately show ?thesis
        by (simp add: updateQuantity_Cons updateLine_def)
    qed
  qed
qed

theorem stock_ceiling_rejects_and_keeps_cart_witness:
  "addToCart bottle [\<lparr>product = bottle, quantity = 5, discount = None\<rparr>]
     = ([ToastError ''Not enough stock available''],
        [\<lparr>product = bottle, quantity = 5, discount = None\<rparr>])
   \<and> updateQuantity ''p1'' 1 [\<lparr>product = bottle, quantity = 5, discount = None\<rparr>]
     = ([ToastError ''Not enough stock available''],
        [\<lparr>product = bottle, quantity = 5, discount = None\<rparr>])"
  using stock_ceiling_rejects_and_keeps_cart
          [of "[\<lparr>product = bottle, quantity = 5, discount = None\<rparr>]"
              "\<lparr>product = bottle, quantity = 5, discount = None\<rparr>" "''p1''" bottle
              "\<lparr>product = bottle, quantity = 5, discount = None\<rparr>" 1]
  by (simp add: bottle_def)

text \<open>
  C5 does not hold of the code: the virtual product of a refill line carries the stock
  quantity 999, and \<open>updateQuantity\<close> applies the stock ceiling to every line. A refill
  line that stands at 999 and is stepped by 1 gets the stock error and keeps its
  quantity.
\<close>

theorem refill_line_rejected_above_999:
  "updateQuantity (''refill-'' @ decimal now) 1
     (map (\<lambda>i. i\<lparr>quantity := 999\<rparr>) (addRefillToCart now c u name price vol []))
   = ([ToastError ''Not enough stock available''],
      map (\<lambda>i. i\<lparr>quantity := 999\<rparr>) (addRefillToCart now c u name price vol []))"
  by (simp add: updateQuantity_def updateLine_def addRefillToCart_def Let_def)

section \<open>Properties of the checkout\<close>

lemma updateStocks_requests:
  "UpdateStock pid n \<in> set (fst (updateStocks db cart)) \<Longrightarrow>
     \<not> startsWith pid ''refill-'' \<and>
     (\<exists>item\<in>set cart. pid = p_id (product item)
        \<and> n = stock_quantity (product item) - quantity item)"
  by (induction cart) (auto split: if_splits prod.splits)

lemma updateStocks_success:
  "snd (updateStocks db cart) \<Longrightarrow>
     fst (updateStocks db cart) =
       map (\<lambda>item. UpdateStock (p_id (product item))
                     (stock_quantity (product item) - quantity item))
         (filter (\<lambda>item. \<not> startsWith (p_id (product item)) ''refill-'') cart)"
  by (induction cart) (auto split: if_splits prod.splits)

lemma updateStocks_kind:
  "updateStocks db cart = (ws, ok) \<Longrightarrow> InsertSaleItems rows \<notin> set ws"
  by (induction cart arbitrary: ws ok) (auto split: if_splits prod.splits)

lemma processCheckout_stock_requests:
  "UpdateStock pid n \<in> set (requests (processCheckout db uid pm cart ca ch now))
     \<Longrightarrow> UpdateStock pid n \<in> set (fst (updateStocks db cart))"
  by (auto simp add: processCheckout_def failedSale_def Let_def
        split: option.splits prod.splits bool.splits if_splits)

lemma processCheckout_item_rows:
  "InsertSaleItems rows \<in> set (requests (processCheckout db uid pm cart ca ch now))
     \<Longrightarrow> \<exists>sid. rows = saleItems sid cart"
  by (auto simp add: processCheckout_def failedSale_def Let_def dest: updateStocks_kind
        split: option.splits prod.splits bool.splits if_splits)

lemma processCheckout_success_requests:
  "receiptData (processCheckout db uid pm cart ca ch now) \<noteq> None \<Longrightarrow>
     set (fst (updateStocks db cart))
       \<subseteq> set (requests (processCheckout db uid pm cart ca ch now))
     \<and> snd (updateStocks db cart)"
  by (auto simp add: processCheckout_def failedSale_def Let_def
        split: option.splits prod.splits bool.splits if_splits)

lemma processCheckout_sends: "requests (processCheckout db uid pm cart ca ch now) \<noteq> []"
  by (simp add: processCheckout_def failedSale_def Let_def
        split: option.split prod.split bool.split)

lemma processCheckout_receipt:
  "receiptData (processCheckout db uid pm cart ca ch now) = Some r \<Longrightarrow>
     cashReceived r = ca \<and> receipt_changeAmount r = ch
     \<and> total r = subtotal (calculateTotals cart)"
  by (auto simp add: processCheckout_def failedSale_def Let_def
        split: option.splits prod.splits bool.splits if_splits)

lemma bottleLine_subtotal: "subtotal (calculateTotals [bottleLine]) = 300"
  by (simp add: calculateTotals_def bottleLine_def bottle_def calculateItemDiscount_def Let_def
        double_eval)

lemma freeCart_subtotal: "subtotal (calculateTotals freeCart) = 0"
  by (simp add: calculateTotals_def freeCart_def fullDiscount_def bottle_def
        calculateItemDiscount_def Let_def double_eval)

lemma subtotal_isDouble: "isDouble (subtotal (calculateTotals cart))"
  by (simp add: calculateTotals_def Let_def dsub_def toDouble_isDouble)

lemma cashReceivedAmount_isDouble: "isDouble (cashReceivedAmount parsed)"
  by (simp add: cashReceivedAmount_def isDouble_def toDouble_idem toDouble_0 split: option.split)

lemma confirmPayment_requests:
  "requests (confirmPayment db uid paymentMethod cart parsed now) \<noteq> []
     \<longleftrightarrow> \<not> confirmDisabled paymentMethod parsed cart
         \<and> subtotal (calculateTotals cart) \<le> cashReceivedAmount parsed"
  by (simp add: confirmPayment_def handleCashCheckout_def processCheckout_sends not_less)

lemma bottleLine_stock: "updateStocks okDb [bottleLine] = ([UpdateStock ''p1'' 3], True)"
  by (simp add: okDb_def bottleLine_def bottle_def startsWith_def)

lemma okDb_sale: "insert_sale okDb s = Some ''s1''"
  by (simp add: okDb_def)

lemma okDb_rows: "insert_sale_items okDb rows"
  by (simp add: okDb_def)

text \<open>
  C6. At checkout, the row built for a cart line whose product id starts with
  \<open>refill-\<close> has no product id (every other row carries the id of its product), the
  rows sent to the service are the rows so built, every stock update that is sent
  belongs to a line that is not a refill and writes that line's stock minus its
  quantity, and a checkout that completes has sent such an update for every line that is
  not a refill.
\<close>

theorem refill_lines_at_checkout:
  "length (saleItems sid cart) = length cart
   \<and> (\<forall>k<length cart.
         product_id (saleItems sid cart ! k)
           = (if startsWith (p_id (product (cart ! k))) ''refill-'' then None
              else Some (p_id (product (cart ! k)))))
   \<and> (\<forall>rows. InsertSaleItems rows \<in> set (requests (processCheckout db uid pm cart ca ch now))
         \<longrightarrow> (\<exists>sid'. rows = saleItems sid' cart))
   \<and> (\<forall>pid n. UpdateStock pid n \<in> set (requests (processCheckout db uid pm cart ca ch now))
         \<longrightarrow> \<not> startsWith pid ''refill-''
             \<and> (\<exists>item\<in>set cart. pid = p_id (product item)
                   \<and> n = stock_quantity (product item) - quantity item))
   \<and> (receiptData (processCheckout db uid pm cart ca ch now) \<noteq> None
         \<longrightarrow> (\<forall>item\<in>set cart. \<not> startsWith (p_id (product item)) ''refill-''
               \<longrightarrow> UpdateStock (p_id (product item))
                       (stock_quantity (product item) - quantity item)
                     \<in> set (requests (processCheckout db uid pm cart ca ch now))))"
proof (intro conjI allI impI ballI)
  show "length (saleItems sid cart) = length cart"
    by (simp add: saleItems_def)
next
  fix k assume "k < length cart"
  then show "product_id (saleItems sid cart ! k)
           = (if startsWith (p_id (product (cart ! k))) ''refill-'' then None
              else Some (p_id (product (cart ! k))))"
    by (simp add: saleItems_def saleItem_def Let_def)
next
  fix rows
  assume "InsertSaleItems rows \<in> set (requests (processCheckout db uid pm cart ca ch now))"
  then show "\<exists>sid'. rows = saleItems sid' cart" by (rule processCheckout_item_rows)
next
  fix pid n
  assume "UpdateStock pid n \<in> set (requests (processCheckout db uid pm cart ca ch now))"
  then have "UpdateStock pid n \<in> set (fst (updateStocks db cart))"
    by (rule processCheckout_stock_requests)
  then show "\<not> startsWith pid ''refill-''"
    and "\<exists>item\<in>set cart. pid = p_id (product item)
                   \<and> n = stock_quantity (product item) - quantity item"
    by (auto dest: updateStocks_requests)
next
  fix item
  assume ok: "receiptData (processCheckout db uid pm cart ca ch now) \<noteq> None"
    and item: "item \<in> set cart" "\<not> startsWith (p_id (product item)) ''refill-''"
  from ok
  have sub: "set (fst (updateStocks db cart))
               \<subseteq> set (requests (processCheckout db uid pm cart ca ch now))"
    and "snd (updateStocks db cart)"
    using processCheckout_success_requests by blast+
  then have "fst (updateStocks db cart) =
       map (\<lambda>item. UpdateStock (p_id (product item))
                     (stock_quantity (product item) - quantity item))
         (filter (\<lambda>item. \<not> startsWith (p_id (product item)) ''refill-'') cart)"
    by (simp add: updateStocks_success)
  with item
  have "UpdateStock (p_id (product item)) (stock_quantity (product item) - quantity item)
          \<in> set (fst (updateStocks db cart))" by auto
  with sub
  show "UpdateStock (p_id (product item)) (stock_quantity (product item) - quantity item)
          \<in> set (requests (processCheckout db uid pm cart ca ch now))" by blast
qed

theorem refill_lines_at_checkout_witness:
  "startsWith (p_id (product ([refillLine, bottleLine] ! 0))) ''refill-''
   \<and> product_id (saleItems ''s1'' [refillLine, bottleLine] ! 0) = None
   \<and> product_id (saleItems ''s1'' [refillLine, bottleLine] ! 1) = Some ''p1''
   \<and> receiptData (processCheckout okDb ''u1'' card [refillLine, bottleLine] None None 0) \<noteq> None
   \<and> InsertSaleItems (saleItems ''s1'' [refillLine, bottleLine])
        \<in> set (requests (processCheckout okDb ''u1'' card [refillLine, bottleLine] None None 0))
   \<and> UpdateStock ''p1'' 3
        \<in> set (requests (processCheckout okDb ''u1'' card [refillLine, bottleLine] None None 0))
   \<and> (\<forall>n. UpdateStock ''refill-1'' n
        \<notin> set (requests (processCheckout okDb ''u1'' card [refillLine, bottleLine] None None 0)))"
  using refill_lines_at_checkout
          [of "''s1''" "[refillLine, bottleLine]" okDb "''u1''" card None None 0]
  by (simp add: refillLine_def bottleLine_def bottle_def okDb_def startsWith_def
        processCheckout_def saleItems_def saleItem_def Let_def calculateTotals_def
        calculateItemSubtotal_def calculateItemDiscount_def)

text \<open>
  C7, as stated, fails: with one bottle under a 100 percent discount the net total is 0,
  an empty cash field counts as 0 tendered, which is not below the net total, and yet
  the Confirm button is disabled and a press of it sends nothing.
\<close>

theorem cash_tender_zero_counterexample:
  "subtotal (calculateTotals freeCart) \<le> cashReceivedAmount None
   \<and> confirmDisabled cash None freeCart
   \<and> requests (confirmPayment okDb ''u1'' cash freeCart None 0) = []"
  by (simp add: freeCart_subtotal cashReceivedAmount_def confirmPayment_def
        confirmDisabled_def)

text \<open>
  C7, amended. In a cash checkout, a press of Confirm sends requests to the service
  exactly when the tendered amount is at least the cart's net total and is not 0. When
  the tendered amount is below the net total, the button is disabled and a press has no
  effect at all: nothing is sent, no toast is raised, the dialog stays open and the cart
  is kept; the change panel then shows the missing amount whenever the tendered amount is
  positive. The handler \<open>handleCashCheckout\<close> keeps its own guard: run below the net
  total, it raises the toast for insufficient cash and sends nothing. On a receipt, the change is the tendered amount minus the net total, by the
  code's subtraction, and is not negative. From a cart that is not empty and with a
  signed-in user, \<open>handleInitiateCheckout\<close> opens the cash dialog for cash without
  sending anything, and for card it runs \<open>processCheckout\<close> at once.
\<close>

theorem cash_tender_guard:
  "(requests (confirmPayment db uid cash cart parsed now) \<noteq> []
      \<longleftrightarrow> subtotal (calculateTotals cart) \<le> cashReceivedAmount parsed
          \<and> cashReceivedAmount parsed \<noteq> 0)
   \<and> (cashReceivedAmount parsed < subtotal (calculateTotals cart) \<longrightarrow>
        confirmDisabled cash parsed cart
        \<and> confirmPayment db uid cash cart parsed now
            = \<lparr>requests = [], toasts = [], showCashDialog = True, receiptData = None,
               cartAfter = cart\<rparr>
        \<and> handleCashCheckout db uid cash cart parsed now
            = \<lparr>requests = [], toasts = [ToastError ''Insufficient cash received''],
               showCashDialog = True, receiptData = None, cartAfter = cart\<rparr>)
   \<and> (0 < cashReceivedAmount parsed
        \<and> cashReceivedAmount parsed < subtotal (calculateTotals cart) \<longrightarrow>
        changePanel parsed cart = Some (InsufficientAmount \<bar>changeAmount parsed cart\<bar>))
   \<and> (\<forall>r. receiptData (confirmPayment db uid cash cart parsed now) = Some r \<longrightarrow>
          cashReceived r = Some (cashReceivedAmount parsed)
          \<and> receipt_changeAmount r
              = Some (dsub (cashReceivedAmount parsed) (subtotal (calculateTotals cart)))
          \<and> 0 \<le> dsub (cashReceivedAmount parsed) (subtotal (calculateTotals cart)))
   \<and> (cart \<noteq> [] \<longrightarrow>
        handleInitiateCheckout db (Some uid) (Some role) cash cart now
          = \<lparr>requests = [], toasts = [], showCashDialog = True, receiptData = None,
             cartAfter = cart\<rparr>)
   \<and> (cart \<noteq> [] \<longrightarrow>
        handleInitiateCheckout db (Some uid) (Some role) card cart now
          = processCheckout db uid card cart None None now
        \<and> requests (handleInitiateCheckout db (Some uid) (Some role) card cart now) \<noteq> [])"
proof (intro conjI allI impI)
  show "requests (confirmPayment db uid cash cart parsed now) \<noteq> []
      \<longleftrightarrow> subtotal (calculateTotals cart) \<le> cashReceivedAmount parsed
          \<and> cashReceivedAmount parsed \<noteq> 0"
    by (auto simp add: confirmPayment_requests confirmDisabled_def isValidCashPayment_def)
next
  assume low: "cashReceivedAmount parsed < subtotal (calculateTotals cart)"
  then show dis: "confirmDisabled cash parsed cart"
    by (simp add: confirmDisabled_def isValidCashPayment_def)
  then show "confirmPayment db uid cash cart parsed now
            = \<lparr>requests = [], toasts = [], showCashDialog = True, receiptData = None,
               cartAfter = cart\<rparr>"
    by (simp add: confirmPayment_def)
  from low show "handleCashCheckout db uid cash cart parsed now
            = \<lparr>requests = [], toasts = [ToastError ''Insufficient cash received''],
               showCashDialog = True, receiptData = None, cartAfter = cart\<rparr>"
    by (simp add: handleCashCheckout_def)
next
  assume a: "0 < cashReceivedAmount parsed
               \<and> cashReceivedAmount parsed < subtotal (calculateTotals cart)"
  then have "changeAmount parsed cart < 0"
    by (simp add: changeAmount_def dsub_negative subtotal_isDouble cashReceivedAmount_isDouble)
  with a show "changePanel parsed cart = Some (InsufficientAmount \<bar>changeAmount parsed cart\<bar>)"
    by (simp add: changePanel_def)
next
  fix r assume r: "receiptData (confirmPayment db uid cash cart parsed now) = Some r"
  then have en: "\<not> confirmDisabled cash parsed cart"
    by (auto simp add: confirmPayment_def split: if_splits)
  then have ge: "subtotal (calculateTotals cart) \<le> cashReceivedAmount parsed"
    by (simp add: confirmDisabled_def isValidCashPayment_def)
  with r en
  have "receiptData (processCheckout db uid cash cart (Some (cashReceivedAmount parsed))
                 (Some (changeAmount parsed cart)) now) = Some r"
    by (simp add: confirmPayment_def handleCashCheckout_def not_less)
  then have "cashReceived r = Some (cashReceivedAmount parsed)
             \<and> receipt_changeAmount r = Some (changeAmount parsed cart)"
    by (auto dest: processCheckout_receipt)
  with ge show "cashReceived r = Some (cashReceivedAmount parsed)"
    and "receipt_changeAmount r
           = Some (dsub (cashReceivedAmount parsed) (subtotal (calculateTotals cart)))"
    and "0 \<le> dsub (cashReceivedAmount parsed) (subtotal (calculateTotals cart))"
    by (simp_all add: changeAmount_def dsub_nonneg subtotal_isDouble cashReceivedAmount_isDouble)
next
  assume "cart \<noteq> []"
  then show "handleInitiateCheckout db (Some uid) (Some role) cash cart now
          = \<lparr>requests = [], toasts = [], showCashDialog = True, receiptData = None,
             cartAfter = cart\<rparr>"
    by (simp add: handleInitiateCheckout_def)
next
  assume "cart \<noteq> []"
  then show "handleInitiateCheckout db (Some uid) (Some role) card cart now
          = processCheckout db uid card cart None None now"
    and "requests (handleInitiateCheckout db (Some uid) (Some role) card cart now) \<noteq> []"
    by (simp_all add: handleInitiateCheckout_def processCheckout_sends)
qed

theorem cash_tender_guard_witness:
  "cashReceivedAmount (Some 100) < subtotal (calculateTotals [bottleLine])
   \<and> requests (confirmPayment okDb ''u1'' cash [bottleLine] (Some 100) 0) = []
   \<and> toasts (confirmPayment okDb ''u1'' cash [bottleLine] (Some 100) 0) = []
   \<and> changePanel (Some 100) [bottleLine] = Some (InsufficientAmount 200)
   \<and> (\<exists>r. receiptData (confirmPayment okDb ''u1'' cash [bottleLine] (Some 400) 0) = Some r
          \<and> total r = 300 \<and> receipt_changeAmount r = Some 100)
   \<and> showCashDialog (handleInitiateCheckout okDb (Some ''u1'') (Some cashier) cash [bottleLine] 0)
   \<and> requests (handleInitiateCheckout okDb (Some ''u1'') (Some cashier) card [bottleLine] 0) \<noteq> []"
proof -
  have low: "cashReceivedAmount (Some 100) < subtotal (calculateTotals [bottleLine])"
    by (simp add: bottleLine_subtotal cashReceivedAmount_def toDouble_numeral toDouble_0)
  have short: "0 < cashReceivedAmount (Some 100)"
    and short_by: "\<bar>changeAmount (Some 100) [bottleLine]\<bar> = 200"
    by (simp_all add: changeAmount_def bottleLine_subtotal cashReceivedAmount_def toDouble_numeral toDouble_0 double_eval)
  have high: "dsub (cashReceivedAmount (Some 400)) (subtotal (calculateTotals [bottleLine])) = 100"
    by (simp add: bottleLine_subtotal cashReceivedAmount_def toDouble_numeral toDouble_0 double_eval)
  have "\<exists>r. receiptData (confirmPayment okDb ''u1'' cash [bottleLine] (Some 400) 0) = Some r
             \<and> total r = 300"
    by (simp add: confirmPayment_def confirmDisabled_def isValidCashPayment_def
          handleCashCheckout_def processCheckout_def Let_def
          bottleLine_subtotal cashReceivedAmount_def toDouble_numeral toDouble_0 bottleLine_stock okDb_sale okDb_rows
          del: updateStocks.simps)
  then obtain r
    where r: "receiptData (confirmPayment okDb ''u1'' cash [bottleLine] (Some 400) 0) = Some r"
      and t: "total r = 300" by blast
  from cash_tender_guard [of okDb "''u1''" "[bottleLine]" "Some 400" 0 cashier] r high
  have "receipt_changeAmount r = Some 100" by simp
  with r t low short short_by
    cash_tender_guard [of okDb "''u1''" "[bottleLine]" "Some 100" 0 cashier]
  show ?thesis by auto
qed

text \<open>
  The guard compares doubles: three units at 1.10 come to 3.3000000000000003, so a
  tender of 3.30 is short, the Confirm button stays disabled and nothing is sent.
\<close>

lemma centsLine_subtotal:
  "subtotal (calculateTotals [centsLine]) = 7430939385161319 / 2251799813685248"
proof -
  have "dmul (toDouble (11 / 10)) 3 = dmul (11 / 10) 3"
    by (simp add: dmul_def toDouble_idem)
  then have line: "dmul (toDouble (11 / 10)) 3 = toDouble (dmul (11 / 10) 3)"
    by (simp add: dmul_def toDouble_idem)
  have "subtotal (calculateTotals [centsLine]) = toDouble (dmul (11 / 10) 3)"
    by (simp add: calculateTotals_def centsLine_def calculateItemDiscount_def Let_def
          dadd_def dsub_def toDouble_0 toDouble_idem line)
  also have "\<dots> = dmul (11 / 10) 3"
    by (simp add: dmul_def toDouble_idem)
  finally show ?thesis by (simp only: three_times_one_ten)
qed

lemma tender_one_ulp_short:
  "cashReceivedAmount (Some (33 / 10)) < subtotal (calculateTotals [centsLine])
   \<and> confirmDisabled cash (Some (33 / 10)) [centsLine]
   \<and> requests (confirmPayment db uid cash [centsLine] (Some (33 / 10)) now) = []"
  by (simp add: centsLine_subtotal three_thirty cashReceivedAmount_def toDouble_numeral toDouble_0 confirmDisabled_def
        isValidCashPayment_def confirmPayment_def)

text \<open>
  C10. The net total is not floored at 0. One bottle at 150 with a fixed discount of 200
  has the net total -50; \<open>processCheckout\<close> sends that value as the sale's
  \<open>total_amount\<close> and shows it as the total of the receipt; and for that cart every
  tendered amount that is not negative passes the cash guard and is committed.
\<close>

theorem negative_net_total_accepted:
  "subtotal (calculateTotals overDiscounted) = -50
   \<and> hd (requests (processCheckout db uid pm overDiscounted ca ch now))
       = InsertSale \<lparr>cashier_id = uid, total_amount = -50, total_profit = -100,
                     sale_discount_amount = 200, payment_method = pm\<rparr>
   \<and> (\<forall>r. receiptData (processCheckout db uid pm overDiscounted ca ch now) = Some r
          \<longrightarrow> total r = -50)
   \<and> (0 \<le> cashReceivedAmount parsed \<longrightarrow>
        isValidCashPayment cash parsed overDiscounted
        \<and> requests (handleCashCheckout db uid cash overDiscounted parsed now) \<noteq> [])"
proof -
  have t: "calculateTotals overDiscounted
             = \<lparr>originalSubtotal = 150, totalDiscount = 200, subtotal = -50,
                totalProfit = -100\<rparr>"
    by (simp add: calculateTotals_def overDiscounted_def bottle_def bigDiscount_def
          calculateItemDiscount_def calculateItemSubtotal_def Let_def double_eval)
  have "hd (requests (processCheckout db uid pm overDiscounted ca ch now))
       = InsertSale \<lparr>cashier_id = uid, total_amount = -50, total_profit = -100,
                     sale_discount_amount = 200, payment_method = pm\<rparr>"
    by (simp add: processCheckout_def failedSale_def Let_def t
          split: option.split prod.split bool.split)
  moreover
  have "\<forall>r. receiptData (processCheckout db uid pm overDiscounted ca ch now) = Some r
          \<longrightarrow> total r = -50"
    using processCheckout_receipt [of db uid pm overDiscounted ca ch now] by (simp add: t)
  moreover
  have "0 \<le> cashReceivedAmount parsed \<longrightarrow>
        isValidCashPayment cash parsed overDiscounted
        \<and> requests (handleCashCheckout db uid cash overDiscounted parsed now) \<noteq> []"
    by (simp add: isValidCashPayment_def handleCashCheckout_def t processCheckout_sends)
  ultimately show ?thesis by (simp add: t)
qed

theorem negative_net_total_accepted_witness:
  "0 \<le> cashReceivedAmount (Some 10)
   \<and> isValidCashPayment cash (Some 10) overDiscounted
   \<and> (\<exists>r. receiptData (handleCashCheckout okDb ''u1'' cash overDiscounted (Some 10) 0) = Some r
          \<and> total r = -50)"
proof -
  have amt: "cashReceivedAmount (Some 10) = 10" by (simp add: cashReceivedAmount_def toDouble_numeral toDouble_0)
  have sub: "subtotal (calculateTotals overDiscounted) = -50"
    using negative_net_total_accepted by simp
  have "\<exists>r. receiptData (handleCashCheckout okDb ''u1'' cash overDiscounted (Some 10) 0) = Some r"
    by (simp add: handleCashCheckout_def processCheckout_def Let_def amt sub okDb_sale okDb_rows)
       (simp add: overDiscounted_def okDb_def bottle_def startsWith_def)
  then obtain r
    where r: "receiptData (handleCashCheckout okDb ''u1'' cash overDiscounted (Some 10) 0) = Some r"
    by blast
  then have "receiptData (processCheckout okDb ''u1'' cash overDiscounted
                 (Some (cashReceivedAmount (Some 10)))
                 (Some (changeAmount (Some 10) overDiscounted)) 0) = Some r"
    by (simp add: handleCashCheckout_def amt sub)
  then have "total r = -50"
    using negative_net_total_accepted
            [of okDb "''u1''" cash "Some (cashReceivedAmount (Some 10))"
                "Some (changeAmount (Some 10) overDiscounted)" 0 "Some 10"]
    by simp
  with r amt negative_net_total_accepted [of okDb "''u1''" cash None None 0 "Some 10"]
  show ?thesis by auto
qed

section \<open>Properties of saving and applying a discount\<close>

text \<open>
  C9. Saving a discount (new or edited) whose value is at most 0, or whose kind is
  percentage and whose value is above 100, sends nothing to the service and raises one
  error toast. Applying a discount to a cart line checks nothing: whatever the
  discount's kind and value, \<open>applyDiscount\<close> raises its success toast and puts the
  discount on every line of the product.
\<close>

theorem discount_validated_at_save_only:
  assumes "parsed = Some v" and "v \<le> 0 \<or> (type = percentage \<and> 100 < v)"
  shows "fst (handleSave db uid editingDiscount name type parsed) = []
       \<and> (\<exists>msg. snd (handleSave db uid editingDiscount name type parsed) = [ToastError msg])
       \<and> fst (applyDiscount productId (Some d) cart)
           = [ToastSuccess (''Applied '' @ [CHR 0x22] @ d_name d @ [CHR 0x22] @ '' discount'')]
       \<and> map discount (snd (applyDiscount productId (Some d) cart))
           = map (\<lambda>item. if p_id (product item) = productId then Some d else discount item) cart"
  using assms by (auto simp add: handleSave_def applyDiscount_def)

theorem discount_validated_at_save_only_witness:
  "handleSave okDb ''u1'' None ''Over'' percentage (Some 150)
     = ([], [ToastError ''Percentage cannot exceed 100%''])
   \<and> map discount (snd (applyDiscount ''p1'' (Some overHundred) [bottleLine]))
       = [Some overHundred]
   \<and> calculateItemDiscount (hd (snd (applyDiscount ''p1'' (Some overHundred) [bottleLine])))
       = 450"
  using discount_validated_at_save_only
          [of "Some 150" 150 percentage okDb "''u1''" None "''Over''" "''p1''" overHundred
              "[bottleLine]"]
  by (simp add: handleSave_def trim_def isWhiteSpace_def applyDiscount_def bottleLine_def
        bottle_def overHundred_def calculateItemDiscount_def double_eval
        toDouble_three_halves)

end
